theory Spec2Isabelle
  imports Main "HOL-Library.AList" "HOL-Library.Sublist"
begin

section \<open>The input-sanitization checker: a shallow embedding of main.py\<close>

text \<open>
  The program validates its arguments, runs up to three external analysers one after the
  other, collects their exit codes and output in a dictionary, and writes one text block
  per dictionary entry to a file or to standard output.

  Everything the program does to the outside is explicit in the model:
  \<^item> the file system is a map from paths to nodes; \<open>os.path.exists\<close> asks whether the path
    is in its domain;
  \<^item> \<open>subprocess.Popen\<close> followed by \<open>communicate\<close> is a parameter \<open>popen\<close>: given the
    command and the file system it either raises or yields the exit code and the two
    decoded streams, and it returns the file system as the child process left it;
  \<^item> \<open>open(path, "w")\<close> is a parameter \<open>open_w\<close>: given the path and the file system it
    either raises an \<open>IOError\<close> (\<open>Some\<close> of its description) or succeeds (\<open>None\<close>);
  \<^item> every call of \<open>Popen\<close> is recorded in \<open>popen_calls\<close>, every record of the logger
    that passes the configured level \<open>INFO\<close> in \<open>logged\<close>, every character printed in
    \<open>console\<close>.
\<close>

subsection \<open>Data\<close>

datatype level = INFO | WARNING | ERROR

datatype node = File string | Dir

type_synonym filesystem = "string \<rightharpoonup> node"

text \<open>
  The exceptions that occur in the program. \<open>str_exn\<close> is Python's \<open>str(e)\<close>. All of
  them are subclasses of \<open>Exception\<close>.
\<close>

datatype py_exn =
    ValueError string
  | FileNotFoundError string
  | OtherException string

fun str_exn :: "py_exn \<Rightarrow> string" where
  "str_exn (ValueError m) = m"
| "str_exn (FileNotFoundError m) = m"
| "str_exn (OtherException m) = m"

text \<open>The dictionary \<open>{"return_code": .., "stdout": .., "stderr": ..}\<close> of one tool.\<close>

record tool_result =
  return_code :: int
  stdout :: string
  stderr :: string

text \<open>
  \<open>results\<close> is a Python \<open>dict\<close>: keys keep the position of their first insertion, and
  an assignment to a key that is present replaces the value where it stands. That is
  \<open>AList.update\<close> on an association list.
\<close>

type_synonym results = "(string \<times> tool_result) list"

text \<open>The namespace returned by \<open>parser.parse_args()\<close>.\<close>

record args =
  arg_target :: string
  arg_tools :: "string list"
  arg_output :: "string option"
  arg_ignore :: "string list option"
  arg_offensive :: bool

record state =
  fs :: filesystem
  popen_calls :: "string list list"
  logged :: "(level \<times> string) list"
  console :: string

type_synonym popen_fun =
  "string list \<Rightarrow> filesystem \<Rightarrow> (py_exn + int \<times> string \<times> string) \<times> filesystem"

type_synonym open_fun = "string \<Rightarrow> filesystem \<Rightarrow> string option"

subsection \<open>Python primitives\<close>

text \<open>
  Truth value of an optional list or string in a condition: \<open>None\<close> and the empty
  sequence are false.
\<close>

fun truthy :: "'a list option \<Rightarrow> bool" where
  "truthy None = False"
| "truthy (Some xs) = (xs \<noteq> [])"

text \<open>\<open>sep.join(xs)\<close>\<close>

fun join :: "string \<Rightarrow> string list \<Rightarrow> string" where
  "join sep [] = []"
| "join sep [x] = x"
| "join sep (x # y # ys) = x @ sep @ join sep (y # ys)"

text \<open>\<open>str(n)\<close> for an integer: decimal digits, a minus sign when negative.\<close>

definition digit_char :: "nat \<Rightarrow> char" where
  "digit_char d = char_of (48 + d)"

function str_nat :: "nat \<Rightarrow> string" where
  "str_nat n = (if n < 10 then [digit_char n] else str_nat (n div 10) @ [digit_char (n mod 10)])"
  by pat_completeness auto
termination
  by (relation "measure id") auto

declare str_nat.simps [simp del]

definition str_int :: "int \<Rightarrow> string" where
  "str_int i = (if i < 0 then ''-'' @ str_nat (nat (- i)) else str_nat (nat i))"

definition newline :: string where
  "newline = [CHR 0x0A]"

definition quote :: string where
  "quote = [CHR 0x27]"

definition log :: "level \<Rightarrow> string \<Rightarrow> state \<Rightarrow> state" where
  "log lv msg s = s\<lparr>logged := logged s @ [(lv, msg)]\<rparr>"

subsection \<open>run_tool\<close>

text \<open>
  Lines 43 to 69: the command of each tool, or the \<open>ValueError\<close> of the last branch.
\<close>

definition offensive_rules :: string where
  "offensive_rules = ''B101,B301,B603,B605,B608''"

fun extend_x :: "string list \<Rightarrow> string list \<Rightarrow> string list" where
  "extend_x command [] = command"
| "extend_x command (i # is) = extend_x (command @ [''-x'', i]) is"

definition build_command ::
  "string \<Rightarrow> string \<Rightarrow> string list option \<Rightarrow> string option \<Rightarrow> bool \<Rightarrow> py_exn + string list"
where
  "build_command tool target ignore output offensive =
    (if tool = ''bandit'' then
       let command = [''bandit'', ''-r'', target, ''-q''];
           command = (if offensive then command @ [''-s'', offensive_rules] else command);
           command = (if truthy ignore then extend_x command (the ignore) else command);
           command = (if truthy output then command @ [''-o'', the output, ''-f'', ''txt'']
                      else command)
       in Inr command
     else if tool = ''flake8'' then
       let command = [''flake8'', target];
           command = (if truthy ignore then command @ [''--exclude'', join '','' (the ignore)]
                      else command);
           command = (if truthy output then command @ [''--output-file'', the output]
                      else command)
       in Inr command
     else if tool = ''pylint'' then
       let command = [''pylint'', target, ''--disable=all'', ''--enable=security'', ''--reports=n''];
           command = (if truthy ignore then command @ [''--ignore'', join '','' (the ignore)]
                      else command);
           command = (if truthy output then command @ [''--output'', the output]
                      else command)
       in Inr command
     else Inl (ValueError (''Unsupported tool: '' @ tool)))"

text \<open>
  The body of the \<open>try\<close> block: build the command, log it, start the process and wait
  for it. The two \<open>logging.debug\<close> calls are below the configured level and leave no
  record.
\<close>

definition run_tool_try ::
  "popen_fun \<Rightarrow> string \<Rightarrow> string \<Rightarrow> string list option \<Rightarrow> string option \<Rightarrow> bool \<Rightarrow>
     state \<Rightarrow> (py_exn + tool_result) \<times> state"
where
  "run_tool_try popen tool target ignore output offensive s =
    (case build_command tool target ignore output offensive of
       Inl e \<Rightarrow> (Inl e, s)
     | Inr command \<Rightarrow>
         let s = log INFO (''Running: '' @ join '' '' command) s;
             s = s\<lparr>popen_calls := popen_calls s @ [command]\<rparr>;
             (r, fs') = popen command (fs s);
             s = s\<lparr>fs := fs'\<rparr>
         in (case r of
               Inl e \<Rightarrow> (Inl e, s)
             | Inr (rc, out, err) \<Rightarrow>
                 (Inr \<lparr>return_code = rc, stdout = out, stderr = err\<rparr>, s)))"

text \<open>
  The function with its two handlers. Both return a tuple, so the function returns a
  result on every path.
\<close>

definition run_tool ::
  "popen_fun \<Rightarrow> string \<Rightarrow> string \<Rightarrow> string list option \<Rightarrow> string option \<Rightarrow> bool \<Rightarrow>
     state \<Rightarrow> tool_result \<times> state"
where
  "run_tool popen tool target ignore output offensive s =
    (case run_tool_try popen tool target ignore output offensive s of
       (Inr r, s) \<Rightarrow> (r, s)
     | (Inl (FileNotFoundError m), s) \<Rightarrow>
         (\<lparr>return_code = 1, stdout = [], stderr = m\<rparr>,
          log ERROR (''Error: '' @ tool @
            '' not found. Please ensure it is installed and in your PATH.'') s)
     | (Inl e, s) \<Rightarrow>
         (\<lparr>return_code = 1, stdout = [], stderr = str_exn e\<rparr>,
          log ERROR (''An unexpected error occurred while running '' @ tool @ '': '' @
            str_exn e) s))"

subsection \<open>Validation\<close>

definition validate_target :: "string \<Rightarrow> state \<Rightarrow> bool \<times> state" where
  "validate_target target s =
    (if fs s target = None then
       (False, log ERROR (''Error: Target '' @ quote @ target @ quote @ '' does not exist.'') s)
     else (True, s))"

definition valid_tools :: "string list" where
  "valid_tools = [''bandit'', ''flake8'', ''pylint'']"

text \<open>\<open>repr\<close> of the list \<open>valid_tools\<close>, as the f-string prints it.\<close>

definition repr_valid_tools :: string where
  "repr_valid_tools =
     ''['' @ join '', '' (map (\<lambda>t. quote @ t @ quote) valid_tools) @ '']''"

fun validate_tools :: "string list \<Rightarrow> state \<Rightarrow> bool \<times> state" where
  "validate_tools [] s = (True, s)"
| "validate_tools (tool # tools) s =
    (if tool \<notin> set valid_tools then
       (False, log ERROR (''Error: Invalid tool '' @ quote @ tool @ quote @
          ''. Valid tools are: '' @ repr_valid_tools) s)
     else validate_tools tools s)"

fun check_paths :: "string list \<Rightarrow> state \<Rightarrow> bool \<times> state" where
  "check_paths [] s = (True, s)"
| "check_paths (path # paths) s =
    (if fs s path = None then
       (False, log ERROR (''Error: Ignore path '' @ quote @ path @ quote @
          '' does not exist.'') s)
     else check_paths paths s)"

definition validate_ignore_paths :: "string list option \<Rightarrow> state \<Rightarrow> bool \<times> state" where
  "validate_ignore_paths ignore_paths s =
    (case ignore_paths of
       None \<Rightarrow> (True, s)
     | Some paths \<Rightarrow> check_paths paths s)"

subsection \<open>main\<close>

text \<open>One round of the loop of lines 157 to 165.\<close>

definition run_step :: "popen_fun \<Rightarrow> args \<Rightarrow> string \<Rightarrow> results \<times> state \<Rightarrow> results \<times> state" where
  "run_step popen a tool rs_s =
    (let (rs, s) = rs_s;
         s = log INFO (''Running '' @ tool @ '' on '' @ arg_target a @ ''...'') s;
         (r, s) = run_tool popen tool (arg_target a) (arg_ignore a) (arg_output a)
                    (arg_offensive a) s;
         rs = AList.update tool r rs;
         s = (if return_code r \<noteq> 0 then
                let s = log WARNING (tool @ '' returned a non-zero exit code: '' @
                          str_int (return_code r)) s
                in (if stderr r \<noteq> [] then log ERROR (tool @ '' stderr: '' @ stderr r) s
                    else s)
              else s)
     in (rs, s))"

fun run_tools :: "popen_fun \<Rightarrow> args \<Rightarrow> string list \<Rightarrow> results \<times> state \<Rightarrow> results \<times> state" where
  "run_tools popen a [] rs_s = rs_s"
| "run_tools popen a (tool # tools) rs_s = run_tools popen a tools (run_step popen a tool rs_s)"

text \<open>The five \<open>f.write\<close> calls of one entry, and the five \<open>print\<close> calls.\<close>

definition rule40 :: string where
  "rule40 = concat (replicate 40 ''-'')"

definition file_block :: "string \<times> tool_result \<Rightarrow> string" where
  "file_block e =
    (let (tool, result) = e in
       (''Results for '' @ tool @ '':'' @ newline) @
       (''Return Code: '' @ str_int (return_code result) @ newline) @
       (''Stdout:'' @ newline @ stdout result @ newline) @
       (''Stderr:'' @ newline @ stderr result @ newline) @
       (rule40 @ newline))"

definition print_line :: "string \<Rightarrow> string" where
  "print_line x = x @ newline"

definition print_block :: "string \<times> tool_result \<Rightarrow> string" where
  "print_block e =
    (let (tool, result) = e in
       print_line (''Results for '' @ tool @ '':'') @
       print_line (''Return Code: '' @ str_int (return_code result)) @
       print_line (''Stdout:'' @ newline @ stdout result) @
       print_line (''Stderr:'' @ newline @ stderr result) @
       print_line rule40)"

text \<open>
  Lines 168 to 189. A failed \<open>open\<close> leaves the file system as it was; a successful one
  truncates the file, and the file holds what was written when the \<open>with\<close> block ends.
  An \<open>IOError\<close> of a later \<open>f.write\<close> is not distinguished from one of \<open>open\<close>: both
  reach the same handler. The result is the exit status: 1 from \<open>sys.exit(1)\<close>, 0 when
  \<open>main\<close> returns.
\<close>

definition report :: "open_fun \<Rightarrow> args \<Rightarrow> results \<Rightarrow> state \<Rightarrow> int \<times> state" where
  "report open_w a rs s =
    (if truthy (arg_output a) then
       (case open_w (the (arg_output a)) (fs s) of
          Some e \<Rightarrow> (1, log ERROR (''Error writing to output file: '' @ e) s)
        | None \<Rightarrow>
            let s = s\<lparr>fs := (fs s)(the (arg_output a) \<mapsto> File (concat (map file_block rs)))\<rparr>;
                s = log INFO (''Results written to '' @ the (arg_output a)) s
            in (0, log INFO ''Analysis complete.'' s))
     else
       let s = s\<lparr>console := console s @ concat (map print_block rs)\<rparr>
       in (0, log INFO ''Analysis complete.'' s))"

definition main :: "popen_fun \<Rightarrow> open_fun \<Rightarrow> args \<Rightarrow> state \<Rightarrow> int \<times> state" where
  "main popen open_w a s =
    (let (ok, s) = validate_target (arg_target a) s in
     if \<not> ok then (1, s)
     else
       let (ok, s) = validate_tools (arg_tools a) s in
       if \<not> ok then (1, s)
       else
         let (bad, s) = (if truthy (arg_ignore a)
                         then (let (ok, s) = validate_ignore_paths (arg_ignore a) s
                               in (\<not> ok, s))
                         else (False, s)) in
         if bad then (1, s)
         else
           let (rs, s) = run_tools popen a (arg_tools a) ([], s)
           in report open_w a rs s)"

subsection \<open>A sample environment\<close>

text \<open>
  A project directory with a vendored subdirectory. \<open>bandit\<close> is not installed.
  \<open>flake8\<close> reports one finding and exits with 1 as long as the file \<open>./proj/.fixed\<close>
  is absent, and the run creates that file; once it is there \<open>flake8\<close> exits with 0.
  \<open>pylint\<close> exits with 0. A tool that is given an output file (its last two arguments)
  writes its own text there, unless the path is a directory. A directory cannot be opened
  for writing.
\<close>

definition sample_fs :: filesystem where
  "sample_fs = [''./proj'' \<mapsto> Dir, ''./proj/vendor'' \<mapsto> Dir]"

definition sample_state :: state where
  "sample_state = \<lparr>fs = sample_fs, popen_calls = [], logged = [], console = []\<rparr>"

definition sample_writes :: "string list \<Rightarrow> filesystem \<Rightarrow> filesystem" where
  "sample_writes command f =
     (case rev command of
        out # flag # _ \<Rightarrow>
          (if (flag = ''--output-file'' \<or> flag = ''--output'') \<and> f out \<noteq> Some Dir
           then f(out \<mapsto> File ''tool text'')
           else f)
      | _ \<Rightarrow> f)"

definition sample_popen :: popen_fun where
  "sample_popen command f =
     (if take 1 command = [''bandit''] then
        (Inl (FileNotFoundError ''[Errno 2] No such file or directory: bandit''), f)
      else if take 1 command = [''flake8''] then
        (if f ''./proj/.fixed'' = None then
           (Inr (1, ''./proj/a.py:1:1: E265'', []),
            sample_writes command (f(''./proj/.fixed'' \<mapsto> File [])))
         else (Inr (0, [], []), sample_writes command f))
      else (Inr (0, [], []), sample_writes command f))"

text \<open>
  A launch that fails with an exception whose description is empty, as
  \<open>str(MemoryError())\<close> is.
\<close>

definition silent_popen :: popen_fun where
  "silent_popen command f = (Inl (OtherException []), f)"

definition sample_open :: open_fun where
  "sample_open path f = (if f path = Some Dir then Some ''[Errno 21] Is a directory'' else None)"

definition sample_args :: args where
  "sample_args = \<lparr>arg_target = ''./proj'', arg_tools = [''bandit'', ''flake8'', ''pylint''],
     arg_output = None, arg_ignore = None, arg_offensive = False\<rparr>"

section \<open>Properties\<close>

subsection \<open>Auxiliary facts\<close>

lemma extend_x_eq: "extend_x command is = command @ concat (map (\<lambda>i. [''-x'', i]) is)"
  by (induction "is" arbitrary: command) auto

lemma validate_target_fst: "fst (validate_target t s) = (fs s t \<noteq> None)"
  by (simp add: validate_target_def)

lemma validate_target_ok: "fs s t \<noteq> None \<Longrightarrow> validate_target t s = (True, s)"
  by (simp add: validate_target_def)

lemma validate_target_bad:
  "fs s t = None \<Longrightarrow> \<exists>m. validate_target t s = (False, log ERROR m s)"
  by (auto simp add: validate_target_def)

lemma validate_tools_ok: "set ts \<subseteq> set valid_tools \<Longrightarrow> validate_tools ts s = (True, s)"
  by (induction ts) auto

lemma validate_tools_bad:
  "\<not> set ts \<subseteq> set valid_tools \<Longrightarrow> \<exists>m. validate_tools ts s = (False, log ERROR m s)"
  by (induction ts) (auto split: if_splits)

lemma check_paths_ok: "\<forall>p\<in>set ps. fs s p \<noteq> None \<Longrightarrow> check_paths ps s = (True, s)"
  by (induction ps) auto

lemma check_paths_bad:
  "\<exists>p\<in>set ps. fs s p = None \<Longrightarrow> \<exists>m. check_paths ps s = (False, log ERROR m s)"
  by (induction ps) auto


lemma build_command_bandit:
  "build_command ''bandit'' target ignore output offensive =
     Inr ([''bandit'', ''-r'', target, ''-q''] @
          (if offensive then [''-s'', offensive_rules] else []) @
          (if truthy ignore then concat (map (\<lambda>i. [''-x'', i]) (the ignore)) else []) @
          (if truthy output then [''-o'', the output, ''-f'', ''txt''] else []))"
  by (simp add: build_command_def extend_x_eq Let_def)

lemma build_command_flake8:
  "build_command ''flake8'' target ignore output offensive =
     Inr ([''flake8'', target] @
          (if truthy ignore then [''--exclude'', join '','' (the ignore)] else []) @
          (if truthy output then [''--output-file'', the output] else []))"
  by (simp add: build_command_def Let_def)

lemma build_command_pylint:
  "build_command ''pylint'' target ignore output offensive =
     Inr ([''pylint'', target, ''--disable=all'', ''--enable=security'', ''--reports=n''] @
          (if truthy ignore then [''--ignore'', join '','' (the ignore)] else []) @
          (if truthy output then [''--output'', the output] else []))"
  by (simp add: build_command_def Let_def)

lemma build_command_unsupported:
  "tool \<notin> set valid_tools \<Longrightarrow>
     build_command tool target ignore output offensive =
       Inl (ValueError (''Unsupported tool: '' @ tool))"
  by (simp add: build_command_def valid_tools_def)

lemma valid_tools_cases:
  "tool \<in> set valid_tools \<Longrightarrow> tool = ''bandit'' \<or> tool = ''flake8'' \<or> tool = ''pylint''"
  by (simp add: valid_tools_def)

lemma build_command_supported:
  "tool \<in> set valid_tools \<Longrightarrow> \<exists>c. build_command tool target ignore output offensive = Inr c"
  using build_command_bandit build_command_flake8 build_command_pylint
  by (auto dest!: valid_tools_cases)

lemma run_tool_raise:
  assumes "build_command tool target ignore output offensive = Inl e"
  shows "run_tool_try popen tool target ignore output offensive s = (Inl e, s)"
  using assms by (simp add: run_tool_try_def)

lemma run_tool_try_launch:
  assumes "build_command tool target ignore output offensive = Inr c"
  shows "run_tool_try popen tool target ignore output offensive s =
    (map_sum id (\<lambda>(rc, out, err). \<lparr>return_code = rc, stdout = out, stderr = err\<rparr>)
       (fst (popen c (fs s))),
     s\<lparr>logged := logged s @ [(INFO, ''Running: '' @ join '' '' c)],
       popen_calls := popen_calls s @ [c],
       fs := snd (popen c (fs s))\<rparr>)"
  using assms
  by (simp add: run_tool_try_def log_def Let_def split: prod.splits sum.splits)

lemma run_tool_launch_state:
  assumes "build_command tool target ignore output offensive = Inr c"
  shows "popen_calls (snd (run_tool popen tool target ignore output offensive s)) =
           popen_calls s @ [c]"
    and "fs (snd (run_tool popen tool target ignore output offensive s)) = snd (popen c (fs s))"
    and "console (snd (run_tool popen tool target ignore output offensive s)) = console s"
  using assms
  by (simp_all add: run_tool_def run_tool_try_launch log_def
        split: prod.splits sum.splits py_exn.splits)

lemma run_tool_launch_failure:
  assumes "build_command tool target ignore output offensive = Inr c"
      and "fst (popen c (fs s)) = Inl e"
  shows "fst (run_tool popen tool target ignore output offensive s) =
           \<lparr>return_code = 1, stdout = [], stderr = str_exn e\<rparr>"
  using assms
  by (cases e) (simp_all add: run_tool_def run_tool_try_launch)

lemma run_tool_launch_success:
  assumes "build_command tool target ignore output offensive = Inr c"
      and "fst (popen c (fs s)) = Inr (rc, out, err)"
  shows "fst (run_tool popen tool target ignore output offensive s) =
           \<lparr>return_code = rc, stdout = out, stderr = err\<rparr>"
  using assms
  by (simp add: run_tool_def run_tool_try_launch)

lemma run_tool_unsupported_state:
  assumes "build_command tool target ignore output offensive = Inl e"
  shows "popen_calls (snd (run_tool popen tool target ignore output offensive s)) = popen_calls s"
    and "fs (snd (run_tool popen tool target ignore output offensive s)) = fs s"
    and "console (snd (run_tool popen tool target ignore output offensive s)) = console s"
    and "fst (run_tool popen tool target ignore output offensive s) =
           \<lparr>return_code = 1, stdout = [], stderr = str_exn e\<rparr>"
  using assms
  by (cases e; simp add: run_tool_def run_tool_raise log_def)+

lemma run_tool_fs_only:
  assumes "fs s = fs s'"
  shows "fst (run_tool popen tool target ignore output offensive s) =
         fst (run_tool popen tool target ignore output offensive s')"
proof (cases "build_command tool target ignore output offensive")
  case (Inl e)
  then show ?thesis by (simp add: run_tool_unsupported_state)
next
  case (Inr c)
  show ?thesis
  proof (cases "fst (popen c (fs s))")
    case (Inl e)
    with Inr assms show ?thesis by (simp add: run_tool_launch_failure)
  next
    case (Inr r)
    obtain rc out err where "r = (rc, out, err)" by (cases r) auto
    with Inr \<open>build_command tool target ignore output offensive = Inr c\<close> assms
    show ?thesis by (simp add: run_tool_launch_success)
  qed
qed


lemma run_step_fst:
  "fst (run_step popen a tool (rs, s)) =
     AList.update tool
       (fst (run_tool popen tool (arg_target a) (arg_ignore a) (arg_output a) (arg_offensive a) s))
       rs"
proof -
  have "fst (run_tool popen tool (arg_target a) (arg_ignore a) (arg_output a) (arg_offensive a)
               (log INFO (''Running '' @ tool @ '' on '' @ arg_target a @ ''...'') s)) =
        fst (run_tool popen tool (arg_target a) (arg_ignore a) (arg_output a) (arg_offensive a) s)"
    by (rule run_tool_fs_only) (simp add: log_def)
  then show ?thesis
    by (auto simp add: run_step_def Let_def split: prod.splits)
qed

lemma run_step_state_launch:
  assumes "build_command tool (arg_target a) (arg_ignore a) (arg_output a) (arg_offensive a) = Inr c"
  shows "popen_calls (snd (run_step popen a tool (rs, s))) = popen_calls s @ [c]"
    and "fs (snd (run_step popen a tool (rs, s))) = snd (popen c (fs s))"
    and "console (snd (run_step popen a tool (rs, s))) = console s"
proof -
  let ?s0 = "log INFO (''Running '' @ tool @ '' on '' @ arg_target a @ ''...'') s"
  let ?rt = "run_tool popen tool (arg_target a) (arg_ignore a) (arg_output a) (arg_offensive a) ?s0"
  have s0: "popen_calls ?s0 = popen_calls s" "fs ?s0 = fs s" "console ?s0 = console s"
    by (simp_all add: log_def)
  have rt: "popen_calls (snd ?rt) = popen_calls s @ [c]"
           "fs (snd ?rt) = snd (popen c (fs s))"
           "console (snd ?rt) = console s"
    using run_tool_launch_state [OF assms, of popen ?s0] s0 by simp_all
  show "popen_calls (snd (run_step popen a tool (rs, s))) = popen_calls s @ [c]"
    using rt(1) by (auto simp add: run_step_def Let_def log_def split: prod.splits)
  show "fs (snd (run_step popen a tool (rs, s))) = snd (popen c (fs s))"
    using rt(2) by (auto simp add: run_step_def Let_def log_def split: prod.splits)
  show "console (snd (run_step popen a tool (rs, s))) = console s"
    using rt(3) by (auto simp add: run_step_def Let_def log_def split: prod.splits)
qed

lemma run_tools_append:
  "run_tools popen a (xs @ ys) st = run_tools popen a ys (run_tools popen a xs st)"
  by (induction xs arbitrary: st) auto

lemma run_tools_console:
  "set ts \<subseteq> set valid_tools \<Longrightarrow>
     console (snd (run_tools popen a ts (rs, s))) = console s"
proof (induction ts arbitrary: rs s)
  case Nil
  then show ?case by simp
next
  case (Cons t ts)
  obtain c where c: "build_command t (arg_target a) (arg_ignore a) (arg_output a) (arg_offensive a) = Inr c"
    using Cons.prems build_command_supported [of t "arg_target a" "arg_ignore a" "arg_output a" "arg_offensive a"]
    by auto
  obtain rs' s' where st: "run_step popen a t (rs, s) = (rs', s')"
    by (cases "run_step popen a t (rs, s)") auto
  have "console s' = console s"
    using run_step_state_launch(3) [OF c, of popen rs s] st by simp
  moreover have "console (snd (run_tools popen a ts (rs', s'))) = console s'"
    using Cons by simp
  ultimately show ?case using st by simp
qed

lemma run_tools_calls:
  "set ts \<subseteq> set valid_tools \<Longrightarrow>
     \<exists>cs. popen_calls (snd (run_tools popen a ts (rs, s))) = popen_calls s @ cs \<and>
          map (\<lambda>t. build_command t (arg_target a) (arg_ignore a) (arg_output a) (arg_offensive a)) ts =
            map Inr cs"
proof (induction ts arbitrary: rs s)
  case Nil
  then show ?case by simp
next
  case (Cons t ts)
  obtain c where c: "build_command t (arg_target a) (arg_ignore a) (arg_output a) (arg_offensive a) = Inr c"
    using Cons.prems build_command_supported [of t "arg_target a" "arg_ignore a" "arg_output a" "arg_offensive a"]
    by auto
  obtain rs' s' where st: "run_step popen a t (rs, s) = (rs', s')"
    by (cases "run_step popen a t (rs, s)") auto
  have s': "popen_calls s' = popen_calls s @ [c]"
    using run_step_state_launch(1) [OF c, of popen rs s] st by simp
  from Cons obtain cs where
    cs: "popen_calls (snd (run_tools popen a ts (rs', s'))) = popen_calls s' @ cs"
        "map (\<lambda>t. build_command t (arg_target a) (arg_ignore a) (arg_output a) (arg_offensive a)) ts =
            map Inr cs"
    by fastforce
  show ?case
  proof (intro exI conjI)
    show "popen_calls (snd (run_tools popen a (t # ts) (rs, s))) = popen_calls s @ (c # cs)"
      using st s' cs(1) by simp
    show "map (\<lambda>t. build_command t (arg_target a) (arg_ignore a) (arg_output a) (arg_offensive a)) (t # ts) =
            map Inr (c # cs)"
      using c cs(2) by simp
  qed
qed

lemma remdups_snoc: "remdups (ys @ [x]) = removeAll x (remdups ys) @ [x]"
  by (induction ys) auto

lemma first_occurrences_Cons:
  "rev (remdups (rev (x # xs))) = x # removeAll x (rev (remdups (rev xs)))"
  by (simp add: remdups_snoc removeAll_filter_not_eq rev_filter)

lemma run_tools_keys:
  "map fst (fst (run_tools popen a ts (rs, s))) =
     map fst rs @ filter (\<lambda>t. t \<notin> set (map fst rs)) (rev (remdups (rev ts)))"
proof (induction ts arbitrary: rs s)
  case Nil
  then show ?case by simp
next
  case (Cons t ts)
  obtain rs' s' where st: "run_step popen a t (rs, s) = (rs', s')"
    by (cases "run_step popen a t (rs, s)") auto
  have keys: "map fst rs' = (if t \<in> set (map fst rs) then map fst rs else map fst rs @ [t])"
    using run_step_fst [of popen a t rs s] st by (simp add: update_keys)
  have ih: "map fst (fst (run_tools popen a ts (rs', s'))) =
     map fst rs' @ filter (\<lambda>t. t \<notin> set (map fst rs')) (rev (remdups (rev ts)))"
    by (rule Cons.IH)
  have fo: "rev (remdups (rev (t # ts))) = t # removeAll t (rev (remdups (rev ts)))"
    by (rule first_occurrences_Cons)
  show ?case
  proof (cases "t \<in> set (map fst rs)")
    case True
    then have "filter (\<lambda>u. u \<notin> set (map fst rs)) (removeAll t (rev (remdups (rev ts)))) =
               filter (\<lambda>u. u \<notin> set (map fst rs)) (rev (remdups (rev ts)))"
      by (auto simp: removeAll_filter_not_eq intro: filter_cong)
    with True keys ih fo st show ?thesis by simp
  next
    case False
    have "filter (\<lambda>u. u \<notin> set (map fst rs)) (removeAll t (rev (remdups (rev ts)))) =
          filter (\<lambda>u. u \<notin> set (map fst (rs)) \<and> u \<noteq> t) (rev (remdups (rev ts)))"
      by (auto simp: removeAll_filter_not_eq intro: filter_cong)
    with False keys ih fo st show ?thesis by (simp add: conj_commute)
  qed
qed

lemma run_tools_map_of_notin:
  "t \<notin> set ts \<Longrightarrow> map_of (fst (run_tools popen a ts (rs, s))) t = map_of rs t"
proof (induction ts arbitrary: rs s)
  case Nil
  then show ?case by simp
next
  case (Cons u ts)
  obtain rs' s' where st: "run_step popen a u (rs, s) = (rs', s')"
    by (cases "run_step popen a u (rs, s)") auto
  have "map_of rs' t = map_of rs t"
    using run_step_fst [of popen a u rs s] st Cons.prems by (simp add: update_conv')
  moreover have "map_of (fst (run_tools popen a ts (rs', s'))) t = map_of rs' t"
    using Cons by simp
  ultimately show ?case using st by simp
qed

subsection \<open>The shape of a run\<close>

lemma main_rejected:
  assumes "fs s (arg_target a) = None \<or> \<not> set (arg_tools a) \<subseteq> set valid_tools \<or>
           (\<exists>ps. arg_ignore a = Some ps \<and> (\<exists>p\<in>set ps. fs s p = None))"
  shows "\<exists>m. main popen open_w a s = (1, log ERROR m s)"
proof (cases "fs s (arg_target a) = None")
  case True
  then show ?thesis
    using validate_target_bad [of s "arg_target a"] by (auto simp: main_def)
next
  case target: False
  show ?thesis
  proof (cases "set (arg_tools a) \<subseteq> set valid_tools")
    case False
    then show ?thesis
      using target validate_tools_bad [of "arg_tools a" s]
      by (auto simp: main_def validate_target_ok)
  next
    case tools: True
    with target assms obtain ps p where
      ps: "arg_ignore a = Some ps" "p \<in> set ps" "fs s p = None"
      by auto
    then have "ps \<noteq> []" by auto
    moreover obtain m where "check_paths ps s = (False, log ERROR m s)"
      using check_paths_bad [of ps s] ps by auto
    ultimately show ?thesis
      using target tools ps(1)
      by (auto simp: main_def validate_target_ok validate_tools_ok validate_ignore_paths_def)
  qed
qed

lemma main_accepted:
  assumes "fs s (arg_target a) \<noteq> None" and "set (arg_tools a) \<subseteq> set valid_tools"
      and "\<forall>ps. arg_ignore a = Some ps \<longrightarrow> (\<forall>p\<in>set ps. fs s p \<noteq> None)"
  shows "main popen open_w a s =
           report open_w a (fst (run_tools popen a (arg_tools a) ([], s)))
             (snd (run_tools popen a (arg_tools a) ([], s)))"
proof (cases "arg_ignore a")
  case None
  with assms show ?thesis
    by (simp add: main_def validate_target_ok validate_tools_ok split: prod.splits)
next
  case (Some ps)
  with assms have "check_paths ps s = (True, s)"
    by (simp add: check_paths_ok)
  with Some assms show ?thesis
    by (simp add: main_def validate_target_ok validate_tools_ok validate_ignore_paths_def
          split: prod.splits)
qed

lemma block_same: "print_block e = file_block e"
  by (cases e) (simp add: print_block_def file_block_def print_line_def)

lemma rule40_eq: "rule40 = replicate 40 (CHR ''-'')"
  by (simp add: rule40_def eval_nat_numeral)


subsection \<open>Unsupported tool identifiers\<close>

text \<open>
  Claim C1 says that \<open>run_tool\<close>, given an identifier outside the supported set, fails
  with an unsupported-tool error and starts no process. The last branch of the chain does
  raise \<open>ValueError("Unsupported tool: ...")\<close>, but it stands inside the \<open>try\<close> block, and
  the handler for \<open>Exception\<close> of the same function catches it. At the identifier
  \<open>mypy\<close>: the \<open>try\<close> block raises the \<open>ValueError\<close>, the function returns the tuple
  \<open>(1, "", "Unsupported tool: mypy")\<close> to its caller, and \<open>Popen\<close> is not called.
\<close>
theorem run_tool_unsupported_returns:
  "run_tool_try popen ''mypy'' target ignore output offensive s =
     (Inl (ValueError ''Unsupported tool: mypy''), s) \<and>
   fst (run_tool popen ''mypy'' target ignore output offensive s) =
     \<lparr>return_code = 1, stdout = [], stderr = ''Unsupported tool: mypy''\<rparr> \<and>
   popen_calls (snd (run_tool popen ''mypy'' target ignore output offensive s)) = popen_calls s"
proof -
  have b: "build_command ''mypy'' target ignore output offensive =
             Inl (ValueError ''Unsupported tool: mypy'')"
    by (simp add: build_command_def)
  show ?thesis
    using run_tool_raise [OF b, of popen s] run_tool_unsupported_state(1,4) [OF b, of popen s]
    by simp
qed

subsection \<open>The command line of each tool\<close>

text \<open>
  Claim C4: for every supported tool and every target, the command that \<open>run_tool\<close>
  hands to \<open>Popen\<close> starts with the tool's fixed tokens, the target among them as a
  token of its own: \<open>bandit -r target -q\<close>, \<open>flake8 target\<close>,
  \<open>pylint target --disable=all --enable=security --reports=n\<close>.
\<close>
theorem build_command_base:
  assumes "tool \<in> set valid_tools"
  shows "\<exists>c rest. build_command tool target ignore output offensive = Inr c \<and>
     c = (if tool = ''bandit'' then [''bandit'', ''-r'', target, ''-q'']
          else if tool = ''flake8'' then [''flake8'', target]
          else [''pylint'', target, ''--disable=all'', ''--enable=security'', ''--reports=n''])
         @ rest \<and>
     target \<in> set c \<and>
     popen_calls (snd (run_tool popen tool target ignore output offensive s)) =
       popen_calls s @ [c]"
proof -
  from assms consider "tool = ''bandit''" | "tool = ''flake8''" | "tool = ''pylint''"
    using valid_tools_cases by blast
  then show ?thesis
  proof cases
    case 1
    show ?thesis
      unfolding 1
      using run_tool_launch_state(1)
              [OF build_command_bandit [of target ignore "output" offensive], of popen s]
      by (simp add: build_command_bandit)
  next
    case 2
    show ?thesis
      unfolding 2
      using run_tool_launch_state(1)
              [OF build_command_flake8 [of target ignore "output" offensive], of popen s]
      by (simp add: build_command_flake8)
  next
    case 3
    show ?thesis
      unfolding 3
      using run_tool_launch_state(1)
              [OF build_command_pylint [of target ignore "output" offensive], of popen s]
      by (simp add: build_command_pylint)
  qed
qed

text \<open>
  Claim C5: with a non-empty ignore list, the command of \<open>bandit\<close> has one pair
  \<open>-x path\<close> for each path, in the order of the list, and the commands of \<open>flake8\<close> and
  \<open>pylint\<close> have the single token \<open>",".join(ignore)\<close> after \<open>--exclude\<close> and after
  \<open>--ignore\<close>.
\<close>
theorem build_command_ignore:
  assumes "ignore = Some ps" and "ps \<noteq> []"
  shows "build_command ''bandit'' target ignore output offensive =
           Inr ([''bandit'', ''-r'', target, ''-q''] @
                (if offensive then [''-s'', offensive_rules] else []) @
                concat (map (\<lambda>p. [''-x'', p]) ps) @
                (if truthy output then [''-o'', the output, ''-f'', ''txt''] else [])) \<and>
         build_command ''flake8'' target ignore output offensive =
           Inr ([''flake8'', target] @ [''--exclude'', join '','' ps] @
                (if truthy output then [''--output-file'', the output] else [])) \<and>
         build_command ''pylint'' target ignore output offensive =
           Inr ([''pylint'', target, ''--disable=all'', ''--enable=security'', ''--reports=n''] @
                [''--ignore'', join '','' ps] @
                (if truthy output then [''--output'', the output] else []))"
  using assms
  by (simp add: build_command_bandit build_command_flake8 build_command_pylint)

lemma no_rules_in_exclusions:
  "\<not> sublist [''-s'', offensive_rules]
       (concat (map (\<lambda>i. [''-x'', i]) ps) @
        (if truthy output then [''-o'', the output, ''-f'', ''txt''] else []))"
proof (induction ps)
  case Nil
  show ?case
    by (simp add: sublist_Cons_right offensive_rules_def)
next
  case (Cons p ps)
  then show ?case
    by (cases ps) (simp_all add: sublist_Cons_right offensive_rules_def)
qed

text \<open>
  Claim C6: the command of \<open>bandit\<close> contains \<open>-s\<close> followed by the rule list exactly
  when the offensive flag is set, whatever the target, the ignore paths and the output
  path are; the commands of \<open>flake8\<close> and \<open>pylint\<close> do not depend on the flag.
\<close>
theorem build_command_offensive:
  "(\<exists>c. build_command ''bandit'' target ignore output offensive = Inr c \<and>
        (sublist [''-s'', offensive_rules] c \<longleftrightarrow> offensive)) \<and>
   build_command ''flake8'' target ignore output True =
     build_command ''flake8'' target ignore output False \<and>
   build_command ''pylint'' target ignore output True =
     build_command ''pylint'' target ignore output False"
proof -
  let ?tail = "concat (map (\<lambda>i. [''-x'', i]) (if truthy ignore then the ignore else [])) @
        (if truthy output then [''-o'', the output, ''-f'', ''txt''] else [])"
  have tail: "\<not> sublist [''-s'', offensive_rules] ?tail"
    by (rule no_rules_in_exclusions)
  have cmd: "build_command ''bandit'' target ignore output offensive =
     Inr ([''bandit'', ''-r'', target, ''-q''] @
          (if offensive then [''-s'', offensive_rules] else []) @ ?tail)"
    by (simp add: build_command_bandit)
  have "sublist [''-s'', offensive_rules]
          ([''bandit'', ''-r'', target, ''-q''] @
           (if offensive then [''-s'', offensive_rules] else []) @ ?tail) \<longleftrightarrow> offensive"
  proof (cases offensive)
    case True
    have "sublist [''-s'', offensive_rules]
            ([''bandit'', ''-r'', target, ''-q''] @ [''-s'', offensive_rules] @ ?tail)"
      by (rule sublist_appendI)
    with True show ?thesis by simp
  next
    case False
    have "\<not> sublist [''-s'', offensive_rules] ([''bandit'', ''-r'', target, ''-q''] @ ?tail)"
      using tail
      by (cases ?tail) (simp_all add: sublist_Cons_right offensive_rules_def)
    with False show ?thesis by simp
  qed
  with cmd show ?thesis
    by (simp add: build_command_flake8 build_command_pylint)
qed


lemma map_block_same: "map print_block rs = map file_block rs"
  by (simp add: block_same)

lemma report_fst:
  "fst (report open_w a rs s) =
     (if truthy (arg_output a) \<and> open_w (the (arg_output a)) (fs s) \<noteq> None then 1 else 0)"
  by (auto simp: report_def Let_def split: option.splits)

lemma report_file:
  assumes "truthy (arg_output a)" and "open_w (the (arg_output a)) (fs s) = None"
  shows "fs (snd (report open_w a rs s)) =
           (fs s)(the (arg_output a) \<mapsto> File (concat (map file_block rs)))"
    and "console (snd (report open_w a rs s)) = console s"
    and "popen_calls (snd (report open_w a rs s)) = popen_calls s"
  using assms by (simp_all add: report_def Let_def log_def)

lemma report_console:
  assumes "\<not> truthy (arg_output a)"
  shows "fs (snd (report open_w a rs s)) = fs s"
    and "console (snd (report open_w a rs s)) = console s @ concat (map file_block rs)"
    and "popen_calls (snd (report open_w a rs s)) = popen_calls s"
  using assms by (simp_all add: report_def Let_def log_def map_block_same)


subsection \<open>Validation\<close>

text \<open>
  Claim C2: when the target does not exist, when a requested tool is not one of the three,
  or when an ignore path does not exist, \<open>main\<close> exits with status 1 and has called
  \<open>Popen\<close> not once; the file system and the console are as they were. Hence a run that
  starts a process has passed all three checks.
\<close>
theorem main_validation_before_launch:
  assumes "fs s (arg_target a) = None \<or> \<not> set (arg_tools a) \<subseteq> set valid_tools \<or>
           (\<exists>ps. arg_ignore a = Some ps \<and> (\<exists>p\<in>set ps. fs s p = None))"
  shows "fst (main popen open_w a s) = 1 \<and>
         popen_calls (snd (main popen open_w a s)) = popen_calls s \<and>
         fs (snd (main popen open_w a s)) = fs s \<and>
         console (snd (main popen open_w a s)) = console s"
proof -
  obtain m where "main popen open_w a s = (1, log ERROR m s)"
    using main_rejected [OF assms] by blast
  then show ?thesis by (simp add: log_def)
qed

subsection \<open>Failures of the process launch\<close>

text \<open>
  Claim C3 says that a failed launch gives exit code 1, an empty stdout and a non-empty
  stderr, without an exception for the caller, and that the remaining tools still run.
  The code returns \<open>str(e)\<close> as stderr and adds nothing to it, so stderr is empty when
  the description of the exception is. As amended: when \<open>Popen\<close> (or waiting for the
  process) raises, be it \<open>FileNotFoundError\<close> or any other exception, \<open>run_tool\<close>
  returns exit code 1, an empty stdout and the description of the exception as stderr,
  which is empty exactly when the description is. The loop records this result under the
  tool's name and goes on: every tool after the failing one is started too.
\<close>
theorem run_tool_launch_failure_contained:
  assumes "build_command tool (arg_target a) (arg_ignore a) (arg_output a) (arg_offensive a) = Inr c"
      and "fst (popen c (fs s)) = Inl e"
      and "set post \<subseteq> set valid_tools"
  shows "fst (run_tool popen tool (arg_target a) (arg_ignore a) (arg_output a) (arg_offensive a) s) =
           \<lparr>return_code = 1, stdout = [], stderr = str_exn e\<rparr> \<and>
         (stderr (fst (run_tool popen tool (arg_target a) (arg_ignore a) (arg_output a)
                         (arg_offensive a) s)) = [] \<longleftrightarrow> str_exn e = []) \<and>
         map_of (fst (run_step popen a tool (rs, s))) tool =
           Some \<lparr>return_code = 1, stdout = [], stderr = str_exn e\<rparr> \<and>
         (\<exists>cs. popen_calls (snd (run_tools popen a (tool # post) (rs, s))) =
                  popen_calls s @ c # cs \<and>
               map (\<lambda>t. build_command t (arg_target a) (arg_ignore a) (arg_output a)
                          (arg_offensive a)) post = map Inr cs)"
proof -
  let ?r = "fst (run_tool popen tool (arg_target a) (arg_ignore a) (arg_output a) (arg_offensive a) s)"
  have r: "?r = \<lparr>return_code = 1, stdout = [], stderr = str_exn e\<rparr>"
    using assms(1,2) by (rule run_tool_launch_failure)
  have entry: "map_of (fst (run_step popen a tool (rs, s))) tool = Some ?r"
    by (simp add: run_step_fst update_conv')
  obtain rs' s' where st: "run_step popen a tool (rs, s) = (rs', s')"
    by (cases "run_step popen a tool (rs, s)") auto
  have s': "popen_calls s' = popen_calls s @ [c]"
    using run_step_state_launch(1) [OF assms(1), of popen rs s] st by simp
  obtain cs where cs: "popen_calls (snd (run_tools popen a post (rs', s'))) = popen_calls s' @ cs"
    "map (\<lambda>t. build_command t (arg_target a) (arg_ignore a) (arg_output a) (arg_offensive a)) post =
       map Inr cs"
    using run_tools_calls [OF assms(3), of popen a rs' s'] by blast
  have "popen_calls (snd (run_tools popen a (tool # post) (rs, s))) = popen_calls s @ c # cs"
    using st s' cs(1) by simp
  with r entry cs(2) show ?thesis by auto
qed

text \<open>
  The claim as it was stated fails where the exception has no text: \<open>flake8\<close> on
  \<open>./proj\<close>, launched by \<open>silent_popen\<close>, gives an empty stderr.
\<close>

theorem run_tool_launch_failure_empty_stderr:
  "build_command ''flake8'' ''./proj'' None None False = Inr [''flake8'', ''./proj''] \<and>
   fst (silent_popen [''flake8'', ''./proj''] (fs sample_state)) = Inl (OtherException []) \<and>
   fst (run_tool silent_popen ''flake8'' ''./proj'' None None False sample_state) =
     \<lparr>return_code = 1, stdout = [], stderr = []\<rparr> \<and>
   \<not> stderr (fst (run_tool silent_popen ''flake8'' ''./proj'' None None False sample_state)) \<noteq> []"
proof -
  have b: "build_command ''flake8'' ''./proj'' None None False = Inr [''flake8'', ''./proj'']"
    by (simp add: build_command_def)
  have f: "fst (silent_popen [''flake8'', ''./proj''] (fs sample_state)) = Inl (OtherException [])"
    by (simp add: silent_popen_def)
  have "fst (run_tool silent_popen ''flake8'' ''./proj'' None None False sample_state) =
          \<lparr>return_code = 1, stdout = [], stderr = str_exn (OtherException [])\<rparr>"
    using b f by (rule run_tool_launch_failure)
  with b f show ?thesis by simp
qed

subsection \<open>The exit status\<close>

text \<open>
  Claim C7: the exit status of \<open>main\<close> is 1 exactly when the target is missing, a tool
  name is invalid, an ignore path is missing, or the configured output file cannot be
  opened for writing after the tools have run; otherwise it is 0. The exit codes of the
  tools do not occur in the condition.
\<close>
theorem main_exit_code:
  "fst (main popen open_w a s) =
     (if fs s (arg_target a) = None \<or> \<not> set (arg_tools a) \<subseteq> set valid_tools \<or>
         (\<exists>ps. arg_ignore a = Some ps \<and> (\<exists>p\<in>set ps. fs s p = None)) \<or>
         (truthy (arg_output a) \<and>
          open_w (the (arg_output a))
            (fs (snd (run_tools popen a (arg_tools a) ([], s)))) \<noteq> None)
      then 1 else 0)"
proof (cases "fs s (arg_target a) = None \<or> \<not> set (arg_tools a) \<subseteq> set valid_tools \<or>
         (\<exists>ps. arg_ignore a = Some ps \<and> (\<exists>p\<in>set ps. fs s p = None))")
  case True
  then obtain m where "main popen open_w a s = (1, log ERROR m s)"
    using main_rejected [of s a popen open_w] by blast
  with True show ?thesis by auto
next
  case False
  then have "main popen open_w a s =
           report open_w a (fst (run_tools popen a (arg_tools a) ([], s)))
             (snd (run_tools popen a (arg_tools a) ([], s)))"
    by (intro main_accepted) auto
  with False show ?thesis by (simp only: report_fst) auto
qed


lemma file_block_format:
  "file_block (tool, r) =
     ''Results for '' @ tool @ '':'' @ newline @
     ''Return Code: '' @ str_int (return_code r) @ newline @
     ''Stdout:'' @ newline @ stdout r @ newline @
     ''Stderr:'' @ newline @ stderr r @ newline @
     replicate 40 (CHR ''-'') @ newline"
  by (simp add: file_block_def rule40_eq)

subsection \<open>The report\<close>

text \<open>
  Claim C8: in a run that passes validation, the entries of the result set stand in the
  order in which the tools were first requested. Each entry gives one block: the tool
  name, the exit code, stdout and stderr, closed by a line of 40 characters \<open>-\<close>. With
  an output path that can be opened the file holds these blocks and nothing is printed;
  without an output path the same blocks are appended to standard output and the program
  writes no file.
\<close>
theorem report_blocks:
  assumes "fs s (arg_target a) \<noteq> None" and "set (arg_tools a) \<subseteq> set valid_tools"
      and "\<forall>ps. arg_ignore a = Some ps \<longrightarrow> (\<forall>p\<in>set ps. fs s p \<noteq> None)"
      and "rs = fst (run_tools popen a (arg_tools a) ([], s))"
      and "s1 = snd (run_tools popen a (arg_tools a) ([], s))"
      and "s2 = snd (main popen open_w a s)"
  shows "map fst rs = rev (remdups (rev (arg_tools a))) \<and>
         (\<forall>tool r. file_block (tool, r) =
            ''Results for '' @ tool @ '':'' @ newline @
            ''Return Code: '' @ str_int (return_code r) @ newline @
            ''Stdout:'' @ newline @ stdout r @ newline @
            ''Stderr:'' @ newline @ stderr r @ newline @
            replicate 40 (CHR ''-'') @ newline) \<and>
         (truthy (arg_output a) \<and> open_w (the (arg_output a)) (fs s1) = None \<longrightarrow>
            fs s2 (the (arg_output a)) = Some (File (concat (map file_block rs))) \<and>
            console s2 = console s) \<and>
         (\<not> truthy (arg_output a) \<longrightarrow>
            console s2 = console s @ concat (map file_block rs) \<and> fs s2 = fs s1)"
proof -
  have m: "main popen open_w a s = report open_w a rs s1"
    unfolding assms(4,5) using assms(1-3) by (rule main_accepted)
  have keys: "map fst rs = rev (remdups (rev (arg_tools a)))"
    unfolding assms(4) by (simp add: run_tools_keys)
  have con: "console s1 = console s"
    unfolding assms(5) using assms(2) by (rule run_tools_console)
  have to_file: "fs s2 (the (arg_output a)) = Some (File (concat (map file_block rs))) \<and>
              console s2 = console s"
    if "truthy (arg_output a)" "open_w (the (arg_output a)) (fs s1) = None"
  proof -
    have "fs (snd (report open_w a rs s1)) =
            (fs s1)(the (arg_output a) \<mapsto> File (concat (map file_block rs)))"
      using that by (rule report_file(1))
    moreover have "console (snd (report open_w a rs s1)) = console s1"
      using that by (rule report_file(2))
    ultimately show ?thesis using con by (simp add: assms(6) m)
  qed
  have to_console: "console s2 = console s @ concat (map file_block rs) \<and> fs s2 = fs s1"
    if "\<not> truthy (arg_output a)"
  proof -
    have "fs (snd (report open_w a rs s1)) = fs s1"
      using that by (rule report_console(1))
    moreover have "console (snd (report open_w a rs s1)) =
                     console s1 @ concat (map file_block rs)"
      using that by (rule report_console(2))
    ultimately show ?thesis using con by (simp add: assms(6) m)
  qed
  show ?thesis
    using keys to_file to_console file_block_format by blast
qed

subsection \<open>Duplicate tool identifiers\<close>

text \<open>
  Claim C9: the loop starts one process for each element of the requested list,
  duplicates included, but the result set has one entry for each distinct identifier, so
  its size is the number of distinct identifiers. The entry of a tool is the result of
  its last execution: the one at its last position in the list.
\<close>
theorem results_last_execution:
  assumes "set tools \<subseteq> set valid_tools"
      and "rs = fst (run_tools popen a tools ([], s))"
  shows "(\<exists>cs. popen_calls (snd (run_tools popen a tools ([], s))) = popen_calls s @ cs \<and>
               map (\<lambda>t. build_command t (arg_target a) (arg_ignore a) (arg_output a)
                          (arg_offensive a)) tools = map Inr cs \<and>
               length cs = length tools) \<and>
         distinct (map fst rs) \<and> set (map fst rs) = set tools \<and>
         length rs = card (set tools) \<and>
         (\<forall>pre t post. tools = pre @ t # post \<and> t \<notin> set post \<longrightarrow>
            map_of rs t =
              Some (fst (run_tool popen t (arg_target a) (arg_ignore a) (arg_output a)
                           (arg_offensive a) (snd (run_tools popen a pre ([], s))))))"
proof -
  obtain cs where cs: "popen_calls (snd (run_tools popen a tools ([], s))) = popen_calls s @ cs"
    "map (\<lambda>t. build_command t (arg_target a) (arg_ignore a) (arg_output a) (arg_offensive a)) tools =
       map Inr cs"
    using run_tools_calls [OF assms(1), of popen a "[]" s] by blast
  have "length (map (\<lambda>t. build_command t (arg_target a) (arg_ignore a) (arg_output a)
           (arg_offensive a)) tools) = length (map Inr cs :: (py_exn + string list) list)"
    using cs(2) by simp
  then have len: "length cs = length tools" by simp
  have keys: "map fst rs = rev (remdups (rev tools))"
    unfolding assms(2) by (simp add: run_tools_keys)
  have d: "distinct (map fst rs)" and st: "set (map fst rs) = set tools"
    unfolding keys by simp_all
  have "length rs = length (map fst rs)" by simp
  also have "\<dots> = card (set (map fst rs))"
    using d by (simp only: distinct_card)
  finally have card: "length rs = card (set tools)"
    using st by simp
  have last: "map_of rs t =
      Some (fst (run_tool popen t (arg_target a) (arg_ignore a) (arg_output a)
                   (arg_offensive a) (snd (run_tools popen a pre ([], s)))))"
    if "tools = pre @ t # post" "t \<notin> set post" for pre t post
  proof -
    obtain rs0 s0 where p: "run_tools popen a pre ([], s) = (rs0, s0)"
      by (cases "run_tools popen a pre ([], s)") auto
    obtain rs' s' where q: "run_step popen a t (rs0, s0) = (rs', s')"
      by (cases "run_step popen a t (rs0, s0)") auto
    have "rs = fst (run_tools popen a post (rs', s'))"
      unfolding assms(2) that(1) by (simp add: run_tools_append p q)
    then have "map_of rs t = map_of rs' t"
      using that(2) by (simp add: run_tools_map_of_notin)
    also have "\<dots> = Some (fst (run_tool popen t (arg_target a) (arg_ignore a) (arg_output a)
                   (arg_offensive a) s0))"
      using run_step_fst [of popen a t rs0 s0] q by (simp add: update_conv')
    finally show ?thesis by (simp add: p)
  qed
  show ?thesis
    using cs len d st card last by blast
qed


subsection \<open>The output path is used twice\<close>


section \<open>The properties on the sample environment\<close>

text \<open>
  Each property above that has a hypothesis is applied here to the sample environment,
  with its hypotheses established there. The runs are those of a project \<open>./proj\<close>
  without \<open>bandit\<close> installed.
\<close>

text \<open>The command of \<open>flake8\<close> on \<open>./proj\<close>, as \<open>run_tool\<close> launches it.\<close>

theorem build_command_base_witness:
  "''flake8'' \<in> set valid_tools \<and>
   (\<exists>c rest. build_command ''flake8'' ''./proj'' None None False = Inr c \<and>
      c = [''flake8'', ''./proj''] @ rest \<and> ''./proj'' \<in> set c \<and>
      popen_calls (snd (run_tool sample_popen ''flake8'' ''./proj'' None None False sample_state)) =
        popen_calls sample_state @ [c])"
proof -
  have h: "''flake8'' \<in> set valid_tools"
    by (simp add: valid_tools_def)
  show ?thesis
    using h build_command_base [OF h, of "''./proj''" None None False sample_popen sample_state]
    by simp
qed

text \<open>Two ignore paths: two \<open>-x\<close> pairs for \<open>bandit\<close>, one joined token for the others.\<close>

theorem build_command_ignore_witness:
  "build_command ''bandit'' ''./proj'' (Some [''./proj/vendor'', ''./proj/build'']) None False =
     Inr [''bandit'', ''-r'', ''./proj'', ''-q'', ''-x'', ''./proj/vendor'', ''-x'', ''./proj/build''] \<and>
   build_command ''flake8'' ''./proj'' (Some [''./proj/vendor'', ''./proj/build'']) None False =
     Inr [''flake8'', ''./proj'', ''--exclude'', ''./proj/vendor,./proj/build''] \<and>
   build_command ''pylint'' ''./proj'' (Some [''./proj/vendor'', ''./proj/build'']) None False =
     Inr [''pylint'', ''./proj'', ''--disable=all'', ''--enable=security'', ''--reports=n'',
          ''--ignore'', ''./proj/vendor,./proj/build'']"
proof -
  have h: "[''./proj/vendor'', ''./proj/build''] \<noteq> ([] :: string list)"
    by simp
  show ?thesis
    using build_command_ignore [OF refl h, of "''./proj''" None False]
    by simp
qed

text \<open>The rule list is present with the flag, and absent without it even for a target named \<open>-s\<close>.\<close>

theorem build_command_offensive_witness:
  "sublist [''-s'', offensive_rules]
     [''bandit'', ''-r'', ''./proj'', ''-q'', ''-s'', ''B101,B301,B603,B605,B608''] \<and>
   \<not> sublist [''-s'', offensive_rules] [''bandit'', ''-r'', ''-s'', ''-q'']"
proof -
  have a: "build_command ''bandit'' ''./proj'' None None True =
             Inr [''bandit'', ''-r'', ''./proj'', ''-q'', ''-s'', ''B101,B301,B603,B605,B608'']"
    by (simp add: build_command_def offensive_rules_def)
  have b: "build_command ''bandit'' ''-s'' None None False = Inr [''bandit'', ''-r'', ''-s'', ''-q'']"
    by (simp add: build_command_def)
  show ?thesis
    using build_command_offensive [of "''./proj''" None None True]
          build_command_offensive [of "''-s''" None None False] a b
    by simp
qed

text \<open>A missing target, an unknown tool and a missing ignore path: status 1 and no process each time.\<close>

theorem main_validation_before_launch_witness:
  "fs sample_state ''./missing'' = None \<and>
   fst (main sample_popen sample_open (sample_args\<lparr>arg_target := ''./missing''\<rparr>) sample_state) = 1 \<and>
   popen_calls (snd (main sample_popen sample_open (sample_args\<lparr>arg_target := ''./missing''\<rparr>)
     sample_state)) = [] \<and>
   \<not> set [''bandit'', ''mypy''] \<subseteq> set valid_tools \<and>
   fst (main sample_popen sample_open (sample_args\<lparr>arg_tools := [''bandit'', ''mypy'']\<rparr>)
     sample_state) = 1 \<and>
   popen_calls (snd (main sample_popen sample_open (sample_args\<lparr>arg_tools := [''bandit'', ''mypy'']\<rparr>)
     sample_state)) = [] \<and>
   fs sample_state ''./proj/build'' = None \<and>
   fst (main sample_popen sample_open
     (sample_args\<lparr>arg_ignore := Some [''./proj/vendor'', ''./proj/build'']\<rparr>) sample_state) = 1 \<and>
   popen_calls (snd (main sample_popen sample_open
     (sample_args\<lparr>arg_ignore := Some [''./proj/vendor'', ''./proj/build'']\<rparr>) sample_state)) = []"
proof -
  let ?a1 = "sample_args\<lparr>arg_target := ''./missing''\<rparr>"
  let ?a2 = "sample_args\<lparr>arg_tools := [''bandit'', ''mypy'']\<rparr>"
  let ?a3 = "sample_args\<lparr>arg_ignore := Some [''./proj/vendor'', ''./proj/build'']\<rparr>"
  have t: "fs sample_state ''./missing'' = None"
    by (simp add: sample_state_def sample_fs_def)
  have u: "\<not> set [''bandit'', ''mypy''] \<subseteq> set valid_tools"
    by (simp add: valid_tools_def)
  have v: "fs sample_state ''./proj/build'' = None"
    by (simp add: sample_state_def sample_fs_def)
  have h1: "fs sample_state (arg_target ?a1) = None \<or>
            \<not> set (arg_tools ?a1) \<subseteq> set valid_tools \<or>
            (\<exists>ps. arg_ignore ?a1 = Some ps \<and> (\<exists>p\<in>set ps. fs sample_state p = None))"
    using t by simp
  have h2: "fs sample_state (arg_target ?a2) = None \<or>
            \<not> set (arg_tools ?a2) \<subseteq> set valid_tools \<or>
            (\<exists>ps. arg_ignore ?a2 = Some ps \<and> (\<exists>p\<in>set ps. fs sample_state p = None))"
    using u by simp
  have h3: "fs sample_state (arg_target ?a3) = None \<or>
            \<not> set (arg_tools ?a3) \<subseteq> set valid_tools \<or>
            (\<exists>ps. arg_ignore ?a3 = Some ps \<and> (\<exists>p\<in>set ps. fs sample_state p = None))"
    using v by simp
  have e: "popen_calls sample_state = []"
    by (simp add: sample_state_def)
  show ?thesis
    using t u v
      main_validation_before_launch [OF h1, of sample_popen sample_open]
      main_validation_before_launch [OF h2, of sample_popen sample_open]
      main_validation_before_launch [OF h3, of sample_popen sample_open]
    by (simp only: e) simp
qed

text \<open>\<open>bandit\<close> is missing: its result is the synthetic one, and the two other tools are started.\<close>

theorem run_tool_launch_failure_contained_witness:
  "build_command ''bandit'' ''./proj'' None None False = Inr [''bandit'', ''-r'', ''./proj'', ''-q''] \<and>
   fst (sample_popen [''bandit'', ''-r'', ''./proj'', ''-q''] (fs sample_state)) =
     Inl (FileNotFoundError ''[Errno 2] No such file or directory: bandit'') \<and>
   fst (run_tool sample_popen ''bandit'' ''./proj'' None None False sample_state) =
     \<lparr>return_code = 1, stdout = [], stderr = ''[Errno 2] No such file or directory: bandit''\<rparr> \<and>
   map_of (fst (run_step sample_popen sample_args ''bandit'' ([], sample_state))) ''bandit'' =
     Some \<lparr>return_code = 1, stdout = [], stderr = ''[Errno 2] No such file or directory: bandit''\<rparr> \<and>
   (\<exists>cs. popen_calls (snd (run_tools sample_popen sample_args [''bandit'', ''flake8'', ''pylint'']
             ([], sample_state))) = [''bandit'', ''-r'', ''./proj'', ''-q''] # cs \<and>
         length cs = 2)"
proof -
  let ?c = "[''bandit'', ''-r'', ''./proj'', ''-q'']"
  let ?e = "FileNotFoundError ''[Errno 2] No such file or directory: bandit''"
  have b: "build_command ''bandit'' ''./proj'' None None False = Inr ?c"
    by (simp add: build_command_def)
  then have h1: "build_command ''bandit'' (arg_target sample_args) (arg_ignore sample_args)
                   (arg_output sample_args) (arg_offensive sample_args) = Inr ?c"
    by (simp add: sample_args_def)
  have h2: "fst (sample_popen ?c (fs sample_state)) = Inl ?e"
    by (simp add: sample_popen_def)
  have h3: "set [''flake8'', ''pylint''] \<subseteq> set valid_tools"
    by (simp add: valid_tools_def)
  have e: "popen_calls sample_state = []"
    by (simp add: sample_state_def)
  note inst = run_tool_launch_failure_contained
    [where popen = sample_popen and a = sample_args and s = sample_state and rs = "[]",
     OF h1 h2 h3]
  have "\<exists>cs. popen_calls (snd (run_tools sample_popen sample_args [''bandit'', ''flake8'', ''pylint'']
             ([], sample_state))) = ?c # cs \<and> length cs = 2"
    using inst by (auto simp add: e dest: map_eq_imp_length_eq)
  then show ?thesis
    using b h2 inst by (simp add: sample_args_def)
qed


text \<open>\<open>flake8\<close> exits with 1 and the run with 0; with a directory as output path the run exits with 1.\<close>

theorem main_exit_code_witness:
  "return_code (fst (run_tool sample_popen ''flake8'' ''./proj'' None None False sample_state)) = 1 \<and>
   fst (main sample_popen sample_open sample_args sample_state) = 0 \<and>
   sample_open ''./proj''
     (fs (snd (run_tools sample_popen (sample_args\<lparr>arg_output := Some ''./proj''\<rparr>)
        [''bandit'', ''flake8'', ''pylint''] ([], sample_state)))) =
     Some ''[Errno 21] Is a directory'' \<and>
   fst (main sample_popen sample_open (sample_args\<lparr>arg_output := Some ''./proj''\<rparr>)
     sample_state) = 1"
proof -
  let ?a = "sample_args\<lparr>arg_output := Some ''./proj''\<rparr>"
  have rc: "return_code (fst (run_tool sample_popen ''flake8'' ''./proj'' None None False
              sample_state)) = 1"
    by code_simp
  have f1: "fs sample_state ''./proj'' \<noteq> None"
    by (simp add: sample_state_def sample_fs_def)
  have f2: "set [''bandit'', ''flake8'', ''pylint''] \<subseteq> set valid_tools"
    by (simp add: valid_tools_def)
  have op: "sample_open ''./proj''
     (fs (snd (run_tools sample_popen ?a [''bandit'', ''flake8'', ''pylint''] ([], sample_state)))) =
     Some ''[Errno 21] Is a directory''"
    by code_simp
  have zero: "fst (main sample_popen sample_open sample_args sample_state) = 0"
    using main_exit_code [of sample_popen sample_open sample_args sample_state] f1 f2
    by (simp add: sample_args_def)
  have one: "fst (main sample_popen sample_open ?a sample_state) = 1"
    using main_exit_code [of sample_popen sample_open ?a sample_state] f1 f2 op
    by (simp add: sample_args_def)
  show ?thesis
    using rc zero op one by simp
qed


text \<open>The list \<open>flake8 pylint flake8\<close>: two blocks, in that order, on the console or in \<open>out.txt\<close>.\<close>

theorem report_blocks_witness:
  "map fst (fst (run_tools sample_popen sample_args [''flake8'', ''pylint'', ''flake8'']
      ([], sample_state))) = [''flake8'', ''pylint''] \<and>
   console (snd (main sample_popen sample_open
      (sample_args\<lparr>arg_tools := [''flake8'', ''pylint'', ''flake8'']\<rparr>) sample_state)) =
     concat (map file_block
       [(''flake8'', \<lparr>return_code = 0, stdout = [], stderr = []\<rparr>),
        (''pylint'', \<lparr>return_code = 0, stdout = [], stderr = []\<rparr>)]) \<and>
   fs (snd (main sample_popen sample_open
      (sample_args\<lparr>arg_tools := [''flake8'', ''pylint'', ''flake8''],
         arg_output := Some ''out.txt''\<rparr>) sample_state)) ''out.txt'' =
     Some (File (concat (map file_block
       [(''flake8'', \<lparr>return_code = 0, stdout = [], stderr = []\<rparr>),
        (''pylint'', \<lparr>return_code = 0, stdout = [], stderr = []\<rparr>)]))) \<and>
   file_block (''pylint'', \<lparr>return_code = 0, stdout = [], stderr = []\<rparr>) =
     ''Results for pylint:'' @ newline @ ''Return Code: 0'' @ newline @
     ''Stdout:'' @ newline @ newline @ ''Stderr:'' @ newline @ newline @
     ''----------------------------------------'' @ newline"
proof -
  let ?ts = "[''flake8'', ''pylint'', ''flake8'']"
  let ?a = "sample_args\<lparr>arg_tools := ?ts\<rparr>"
  let ?b = "sample_args\<lparr>arg_tools := ?ts, arg_output := Some ''out.txt''\<rparr>"
  let ?rs = "[(''flake8'', \<lparr>return_code = 0, stdout = [], stderr = []\<rparr>),
              (''pylint'', \<lparr>return_code = 0, stdout = [], stderr = []\<rparr>)]"
  have f1: "fs sample_state (arg_target ?a) \<noteq> None" "fs sample_state (arg_target ?b) \<noteq> None"
    by (simp_all add: sample_state_def sample_fs_def sample_args_def)
  have f2: "set (arg_tools ?a) \<subseteq> set valid_tools" "set (arg_tools ?b) \<subseteq> set valid_tools"
    by (simp_all add: valid_tools_def)
  have f3: "\<forall>ps. arg_ignore ?a = Some ps \<longrightarrow> (\<forall>p\<in>set ps. fs sample_state p \<noteq> None)"
           "\<forall>ps. arg_ignore ?b = Some ps \<longrightarrow> (\<forall>p\<in>set ps. fs sample_state p \<noteq> None)"
    by (simp_all add: sample_args_def)
  have ra: "fst (run_tools sample_popen ?a (arg_tools ?a) ([], sample_state)) = ?rs"
    by code_simp
  have rb: "fst (run_tools sample_popen ?b (arg_tools ?b) ([], sample_state)) = ?rs"
    by code_simp
  have ob: "sample_open (the (arg_output ?b))
              (fs (snd (run_tools sample_popen ?b (arg_tools ?b) ([], sample_state)))) = None"
    by code_simp
  have ta: "\<not> truthy (arg_output ?a)" and tb: "truthy (arg_output ?b)"
    by (simp_all add: sample_args_def)
  have c0: "console sample_state = []"
    by (simp add: sample_state_def)
  note ia = report_blocks [where popen = sample_popen and open_w = sample_open and a = ?a
      and s = sample_state, OF f1(1) f2(1) f3(1) refl refl refl]
  note ib = report_blocks [where popen = sample_popen and open_w = sample_open and a = ?b
      and s = sample_state, OF f1(2) f2(2) f3(2) refl refl refl]
  have keys: "map fst (fst (run_tools sample_popen sample_args ?ts ([], sample_state))) =
                [''flake8'', ''pylint'']"
    by code_simp
  have con: "console (snd (main sample_popen sample_open ?a sample_state)) =
               concat (map file_block ?rs)"
    using ia ta by (simp only: ra c0) simp
  have fil: "fs (snd (main sample_popen sample_open ?b sample_state)) ''out.txt'' =
               Some (File (concat (map file_block ?rs)))"
    using ib tb ob by (simp only: rb) simp
  have blk: "file_block (''pylint'', \<lparr>return_code = 0, stdout = [], stderr = []\<rparr>) =
     ''Results for pylint:'' @ newline @ ''Return Code: 0'' @ newline @
     ''Stdout:'' @ newline @ newline @ ''Stderr:'' @ newline @ newline @
     ''----------------------------------------'' @ newline"
    by code_simp
  show ?thesis
    using keys con fil blk by blast
qed


text \<open>The list \<open>flake8 pylint flake8\<close>: three processes, two entries, and the entry of \<open>flake8\<close> is that of its second run.\<close>

theorem results_last_execution_witness:
  "fst (run_tool sample_popen ''flake8'' ''./proj'' None None False sample_state) =
     \<lparr>return_code = 1, stdout = ''./proj/a.py:1:1: E265'', stderr = []\<rparr> \<and>
   length (popen_calls (snd (run_tools sample_popen sample_args
      [''flake8'', ''pylint'', ''flake8''] ([], sample_state)))) = 3 \<and>
   length (fst (run_tools sample_popen sample_args
      [''flake8'', ''pylint'', ''flake8''] ([], sample_state))) = 2 \<and>
   map_of (fst (run_tools sample_popen sample_args
      [''flake8'', ''pylint'', ''flake8''] ([], sample_state))) ''flake8'' =
     Some \<lparr>return_code = 0, stdout = [], stderr = []\<rparr>"
proof -
  let ?ts = "[''flake8'', ''pylint'', ''flake8'']"
  let ?rs = "fst (run_tools sample_popen sample_args ?ts ([], sample_state))"
  have h: "set ?ts \<subseteq> set valid_tools"
    by (simp add: valid_tools_def)
  note inst = results_last_execution [where popen = sample_popen and a = sample_args
      and s = sample_state and tools = ?ts, OF h refl]
  have first: "fst (run_tool sample_popen ''flake8'' ''./proj'' None None False sample_state) =
     \<lparr>return_code = 1, stdout = ''./proj/a.py:1:1: E265'', stderr = []\<rparr>"
    by code_simp
  have e: "popen_calls sample_state = []"
    by (simp add: sample_state_def)
  have calls: "length (popen_calls (snd (run_tools sample_popen sample_args ?ts
                 ([], sample_state)))) = 3"
    using inst by (auto simp add: e)
  have "set ?ts = set [''flake8'', ''pylint'']"
    by auto
  then have "card (set ?ts) = length [''flake8'', ''pylint'']"
    by (simp only: distinct_card [of "[''flake8'', ''pylint'']"]) simp
  then have "card (set ?ts) = 2"
    by simp
  then have size: "length ?rs = 2"
    using inst by simp
  have split: "?ts = [''flake8'', ''pylint''] @ ''flake8'' # [] \<and> ''flake8'' \<notin> set ([] :: string list)"
    by simp
  have "map_of ?rs ''flake8'' =
      Some (fst (run_tool sample_popen ''flake8'' (arg_target sample_args) (arg_ignore sample_args)
                   (arg_output sample_args) (arg_offensive sample_args)
                   (snd (run_tools sample_popen sample_args [''flake8'', ''pylint'']
                     ([], sample_state)))))"
    using inst split by blast
  moreover have "fst (run_tool sample_popen ''flake8'' (arg_target sample_args)
                   (arg_ignore sample_args) (arg_output sample_args) (arg_offensive sample_args)
                   (snd (run_tools sample_popen sample_args [''flake8'', ''pylint'']
                     ([], sample_state)))) = \<lparr>return_code = 0, stdout = [], stderr = []\<rparr>"
    by code_simp
  ultimately have last: "map_of ?rs ''flake8'' = Some \<lparr>return_code = 0, stdout = [], stderr = []\<rparr>"
    by simp
  show ?thesis
    using first calls size last by blast
qed


end
